theory Spec2Isabelle
  imports Complex_Main
begin

section \<open>The Vibe Slides command-line client (\<^verbatim>\<open>vibe-slides.mjs\<close>)\<close>

text \<open>
  The script is a linear chain of awaited HTTP calls: create a deck, poll it, start an
  export, poll the export, download the file. The model is a shallow embedding with
  explicit state passing. Everything the script observes from outside (the readings of
  \<^verbatim>\<open>Date.now()\<close>, the replies of the remote API, the replies to the download
  \<^verbatim>\<open>GET\<close>s) is supplied by a \<open>world\<close>; everything it does to the outside (requests,
  log lines, sleeps, standard output, files) is recorded in the \<open>state\<close>.

  JavaScript numbers are modelled by exact rationals: \<^verbatim>\<open>NaN\<close>, the infinities and the
  rounding of doubles are outside the model. A property of a JSON body or of the
  configuration that JavaScript would read as \<^verbatim>\<open>undefined\<close> is \<open>None\<close>.
\<close>

subsection \<open>Configuration (the parsed command line)\<close>

record config =
  API_KEY :: "string option"
  noExport :: bool
  upscale :: bool
  deckName :: "string option"
  format :: string
  outDir :: string
  filename :: "string option"
  pollDeck :: rat
  pollExport :: rat
  timeout :: rat

subsection \<open>Responses of the remote API\<close>

text \<open>
  \<open>body\<close> holds the properties of \<^verbatim>\<open>res.data\<close> that the script reads. A body that is
  not a JSON object (the raw-text fallback of \<^verbatim>\<open>request\<close>) has none of them.
  \<open>ident\<close> is the property \<^verbatim>\<open>id\<close>.
\<close>

record body =
  ident :: "string option"
  name :: "string option"
  status :: "string option"
  slides_count :: "rat option"
  slides_complete :: "rat option"
  error :: "string option"
  export_id :: "string option"
  progress :: "rat option"
  download_url :: "string option"

text \<open>
  What \<^verbatim>\<open>request\<close> resolves to: \<^verbatim>\<open>{status, headers, data}\<close>. Of the headers only
  \<^verbatim>\<open>retry-after\<close> is read. \<open>res_status\<close> is the HTTP status code \<^verbatim>\<open>res.status\<close>.
\<close>

record response =
  res_status :: nat
  retry_after :: "string option"
  data :: body

text \<open>Thrown values: what a rejected promise or a \<^verbatim>\<open>throw\<close> carries.\<close>

datatype exn =
  NetworkError string
| TypeError string
| FsError string
| DownloadFailed nat  \<comment> \<open>\<^verbatim>\<open>new Error(`Download failed: HTTP ${res.statusCode}`)\<close>\<close>

text \<open>The promise of \<^verbatim>\<open>request\<close> either rejects (\<^verbatim>\<open>req.on("error", reject)\<close>) or resolves.\<close>

datatype reply = Rejected exn | Resolved response

text \<open>The answer to one download \<^verbatim>\<open>GET\<close>: \<^verbatim>\<open>new URL(url)\<close> throws, the connection
  fails, or a response arrives with its status code, \<^verbatim>\<open>Location\<close> header and payload.\<close>

datatype dl_reply =
  Bad_url
| Conn_error exn
| Dl_response nat "string option" string

subsection \<open>The outside world and the effects of the script\<close>

record world =
  now :: "nat \<Rightarrow> int"  \<comment> \<open>the value of the n-th call of \<^verbatim>\<open>Date.now()\<close>, in milliseconds\<close>
  replies :: "nat \<Rightarrow> reply"  \<comment> \<open>how the n-th call of \<^verbatim>\<open>request\<close> settles\<close>
  web :: "string \<Rightarrow> dl_reply"  \<comment> \<open>how a download \<^verbatim>\<open>GET\<close> of a URL is answered\<close>
  Number_of :: "string \<Rightarrow> rat"  \<comment> \<open>JavaScript's \<^verbatim>\<open>Number\<close> on a string\<close>
  path_resolve :: "string \<Rightarrow> string \<Rightarrow> string"  \<comment> \<open>\<^verbatim>\<open>path.resolve\<close>\<close>
  path_dirname :: "string \<Rightarrow> string"  \<comment> \<open>\<^verbatim>\<open>path.dirname\<close>\<close>

datatype jval = JStr string | JNum rat | JBool bool

type_synonym json = "(string \<times> jval) list"

text \<open>
  The lines written by \<^verbatim>\<open>log\<close>, one constructor per message template with the
  interpolated values as arguments; the timestamp prefix is left out.
\<close>

datatype logmsg =
  CreatingDeck  \<comment> \<open>\<^verbatim>\<open>Creating deck...\<close>\<close>
| ErrorCreatingDeck nat  \<comment> \<open>\<^verbatim>\<open>Error creating deck: ${res.status} ...\<close>\<close>
| DeckCreated "string option" "string option" "string option"
| WaitingDeck  \<comment> \<open>\<^verbatim>\<open>Waiting for deck generation...\<close>\<close>
| ErrorPollingDeck nat  \<comment> \<open>\<^verbatim>\<open>Error polling deck: ${res.status}\<close>\<close>
| DeckGenerationFailed string  \<comment> \<open>\<^verbatim>\<open>Deck generation failed: ${deck.error || "unknown"}\<close>\<close>
| DeckComplete rat  \<comment> \<open>\<^verbatim>\<open>Deck complete: ${slides_count} slides\<close>\<close>
| GenerationDone rat rat  \<comment> \<open>\<^verbatim>\<open>Generation done, rendering: ${slides_complete}/${slides_count}\<close>\<close>
| DeckStatus "string option" rat rat rat
    \<comment> \<open>\<^verbatim>\<open>Status: ${status}, slides: ${slides_complete}/${slides_count}, retry in ${wait}s\<close>\<close>
| TimeoutDeck  \<comment> \<open>\<^verbatim>\<open>Timeout waiting for deck generation\<close>\<close>
| StartingExport string  \<comment> \<open>\<^verbatim>\<open>Starting ${fmt.toUpperCase()} export...\<close>\<close>
| ErrorStartingExport nat  \<comment> \<open>\<^verbatim>\<open>Error starting export: ${res.status} ...\<close>\<close>
| ExportStarted "string option"  \<comment> \<open>\<^verbatim>\<open>Export started: id=${res.data.export_id}\<close>\<close>
| WaitingExport  \<comment> \<open>\<^verbatim>\<open>Waiting for export...\<close>\<close>
| ExportPollError nat  \<comment> \<open>\<^verbatim>\<open>Export poll error: ${res.status}, retrying...\<close>\<close>
| ExportComplete  \<comment> \<open>\<^verbatim>\<open>Export complete!\<close>\<close>
| ExportFailed string  \<comment> \<open>\<^verbatim>\<open>Export failed: ${exp.error || "unknown"}\<close>\<close>
| ExportProgress rat  \<comment> \<open>\<^verbatim>\<open>Export progress: ${progress}%\<close>\<close>
| TimeoutExport  \<comment> \<open>\<^verbatim>\<open>Timeout waiting for export\<close>\<close>
| NoDownloadUrl  \<comment> \<open>\<^verbatim>\<open>Error: no download URL in export response\<close>\<close>
| Downloading string  \<comment> \<open>\<^verbatim>\<open>Downloading ${ext.toUpperCase()}...\<close>\<close>
| Saved string nat  \<comment> \<open>\<^verbatim>\<open>Saved: ${outPath} (${sizeKB} KB)\<close>, with the size in bytes\<close>

datatype event =
  Log logmsg  \<comment> \<open>a line on standard error written by \<^verbatim>\<open>log\<close>\<close>
| Request string string "json option"  \<comment> \<open>method, endpoint and JSON payload of a \<^verbatim>\<open>request\<close>\<close>
| Sleep rat  \<comment> \<open>\<^verbatim>\<open>setTimeout\<close> awaited, with its delay in milliseconds\<close>
| Get string  \<comment> \<open>a download \<^verbatim>\<open>GET\<close> of a URL\<close>
| Mkdir string  \<comment> \<open>\<^verbatim>\<open>fs.mkdirSync(dir, {recursive: true})\<close>\<close>
| Usage  \<comment> \<open>the two usage lines on standard error\<close>
| Missing_key  \<comment> \<open>the two lines on standard error about \<^verbatim>\<open>VIBE_API_KEY\<close>\<close>
| Stdout_file string  \<comment> \<open>the line \<^verbatim>\<open>FILE: ${outPath}\<close> on standard output\<close>
| Stdout_json json  \<comment> \<open>a \<^verbatim>\<open>JSON.stringify\<close> line on standard output\<close>
| Stderr_exn exn  \<comment> \<open>\<^verbatim>\<open>console.error(e)\<close> in the handler of \<^verbatim>\<open>main().catch\<close>\<close>

record state =
  clock_reads :: nat  \<comment> \<open>how many times \<^verbatim>\<open>Date.now()\<close> was called\<close>
  requests :: nat  \<comment> \<open>how many times \<^verbatim>\<open>request\<close> was called\<close>
  trace :: "event list"  \<comment> \<open>the effects so far, oldest first\<close>
  files :: "string \<rightharpoonup> string"  \<comment> \<open>the file system: path to content\<close>

text \<open>How a call ends: it returns, the process exits (\<^verbatim>\<open>process.exit(n)\<close>), or it throws.\<close>

datatype 'a outcome = Returned 'a | Exited nat | Threw exn

text \<open>One pass through a loop body: it ends the function, or the loop goes on.\<close>

datatype ('a, 'b) step = Stop "'a outcome" | Continue 'b

subsection \<open>Helpers\<close>

definition emit :: "event \<Rightarrow> state \<Rightarrow> state" where
  "emit e s = s\<lparr>trace := trace s @ [e]\<rparr>"

definition log :: "logmsg \<Rightarrow> state \<Rightarrow> state" where
  "log m s = emit (Log m) s"

definition Date_now :: "world \<Rightarrow> state \<Rightarrow> int \<times> state" where
  "Date_now w s = (now w (clock_reads s), s\<lparr>clock_reads := Suc (clock_reads s)\<rparr>)"

definition request :: "world \<Rightarrow> string \<Rightarrow> string \<Rightarrow> json option \<Rightarrow> state \<Rightarrow> reply \<times> state" where
  "request w method endpoint payload s =
     (replies w (requests s),
      emit (Request method endpoint payload) (s\<lparr>requests := Suc (requests s)\<rparr>))"

text \<open>\<^verbatim>\<open>await new Promise((r) => setTimeout(r, seconds * 1000))\<close>\<close>

definition sleep :: "rat \<Rightarrow> state \<Rightarrow> state" where
  "sleep seconds s = emit (Sleep (seconds * 1000)) s"

text \<open>A string in a boolean context: \<^verbatim>\<open>undefined\<close> and the empty string are falsy.\<close>

definition truthy :: "string option \<Rightarrow> bool" where
  "truthy x = (case x of None \<Rightarrow> False | Some v \<Rightarrow> v \<noteq> [])"

text \<open>\<^verbatim>\<open>x || d\<close> on strings.\<close>

definition or_else :: "string option \<Rightarrow> string \<Rightarrow> string" where
  "or_else x d = (case x of None \<Rightarrow> d | Some v \<Rightarrow> if v = [] then d else v)"

text \<open>A string property inside a template literal.\<close>

definition interp :: "string option \<Rightarrow> string" where
  "interp x = (case x of None \<Rightarrow> ''undefined'' | Some v \<Rightarrow> v)"

text \<open>Destructuring with a default, \<^verbatim>\<open>{ slides_count = 0 }\<close>, and \<^verbatim>\<open>exp.progress || 0\<close>.\<close>

definition default0 :: "rat option \<Rightarrow> rat" where
  "default0 x = (case x of None \<Rightarrow> 0 | Some v \<Rightarrow> v)"

subsection \<open>\<^verbatim>\<open>pollDeckStatus\<close>\<close>

text \<open>The body of the \<^verbatim>\<open>while\<close> loop of \<^verbatim>\<open>pollDeckStatus\<close>.\<close>

definition pollDeck_iter :: "config \<Rightarrow> world \<Rightarrow> string option \<Rightarrow> state \<Rightarrow> (body, unit) step \<times> state" where
  "pollDeck_iter cfg w deckId s =
     (case request w ''GET'' (''/v1/decks/'' @ interp deckId) None s of
        (Rejected e, s1) \<Rightarrow> (Stop (Threw e), s1)
      | (Resolved res, s1) \<Rightarrow>
          if res_status res \<noteq> 200 then (Stop (Exited 1), log (ErrorPollingDeck (res_status res)) s1)
          else
            let deck = data res;
                count = default0 (slides_count deck);
                complete = default0 (slides_complete deck)
            in if status deck = Some ''error''
               then (Stop (Exited 1), log (DeckGenerationFailed (or_else (error deck) ''unknown'')) s1)
               else if status deck = Some ''complete'' \<and> count > 0 \<and> complete \<ge> count
               then (Stop (Returned deck), log (DeckComplete count) s1)
               else
                 let wait = (case retry_after res of
                               None \<Rightarrow> pollDeck cfg
                             | Some h \<Rightarrow> if h = [] then pollDeck cfg else Number_of w h);
                     s2 = (if status deck = Some ''complete''
                           then log (GenerationDone complete count) s1
                           else log (DeckStatus (status deck) complete count wait) s1)
                 in (Continue (), sleep wait s2))"

text \<open>The \<^verbatim>\<open>while (Date.now() < deadline)\<close> loop and the timeout exit after it. The loop
  returns \<open>None\<close> when it runs forever.\<close>

partial_function (option) pollDeck_loop ::
  "config \<Rightarrow> world \<Rightarrow> string option \<Rightarrow> rat \<Rightarrow> state \<Rightarrow> (body outcome \<times> state) option" where
  "pollDeck_loop cfg w deckId deadline s =
     (case Date_now w s of (t, s1) \<Rightarrow>
        if of_int t < deadline then
          (case pollDeck_iter cfg w deckId s1 of
             (Stop r, s2) \<Rightarrow> Some (r, s2)
           | (Continue u, s2) \<Rightarrow> pollDeck_loop cfg w deckId deadline s2)
        else Some (Exited 1, log TimeoutDeck s1))"

definition pollDeckStatus ::
  "config \<Rightarrow> world \<Rightarrow> string option \<Rightarrow> state \<Rightarrow> (body outcome \<times> state) option" where
  "pollDeckStatus cfg w deckId s =
     (case Date_now w (log WaitingDeck s) of (t, s1) \<Rightarrow>
        pollDeck_loop cfg w deckId (of_int t + timeout cfg * 1000) s1)"

subsection \<open>\<^verbatim>\<open>pollExportStatus\<close>\<close>

text \<open>The body of the \<^verbatim>\<open>while\<close> loop of \<^verbatim>\<open>pollExportStatus\<close>; \<open>interval\<close> is the
  loop's mutable variable, and \<open>Continue\<close> carries its value for the next pass.\<close>

definition pollExport_iter ::
  "config \<Rightarrow> world \<Rightarrow> string option \<Rightarrow> string option \<Rightarrow> rat \<Rightarrow> state \<Rightarrow> (body, rat) step \<times> state" where
  "pollExport_iter cfg w deckId exportId interval s =
     (case request w ''GET''
             (''/v1/decks/'' @ interp deckId @ ''/export?export_id='' @ interp exportId) None s of
        (Rejected e, s1) \<Rightarrow> (Stop (Threw e), s1)
      | (Resolved res, s1) \<Rightarrow>
          if res_status res \<noteq> 200
          then (Continue interval, sleep interval (log (ExportPollError (res_status res)) s1))
          else
            let exp = data res
            in if status exp = Some ''complete'' \<or> truthy (download_url exp)
               then (Stop (Returned exp), log ExportComplete s1)
               else if status exp = Some ''error''
               then (Stop (Exited 1), log (ExportFailed (or_else (error exp) ''unknown'')) s1)
               else
                 let p = default0 (progress exp);
                     interval' = (if p \<ge> 50 then max (3 / 10) (pollExport cfg * (3 / 10))
                                  else pollExport cfg)
                 in (Continue interval', sleep interval' (log (ExportProgress p) s1)))"

partial_function (option) pollExport_loop ::
  "config \<Rightarrow> world \<Rightarrow> string option \<Rightarrow> string option \<Rightarrow> rat \<Rightarrow> rat \<Rightarrow> state
     \<Rightarrow> (body outcome \<times> state) option" where
  "pollExport_loop cfg w deckId exportId deadline interval s =
     (case Date_now w s of (t, s1) \<Rightarrow>
        if of_int t < deadline then
          (case pollExport_iter cfg w deckId exportId interval s1 of
             (Stop r, s2) \<Rightarrow> Some (r, s2)
           | (Continue interval', s2) \<Rightarrow>
               pollExport_loop cfg w deckId exportId deadline interval' s2)
        else Some (Exited 1, log TimeoutExport s1))"

definition pollExportStatus ::
  "config \<Rightarrow> world \<Rightarrow> string option \<Rightarrow> string option \<Rightarrow> state \<Rightarrow> (body outcome \<times> state) option" where
  "pollExportStatus cfg w deckId exportId s =
     (case Date_now w (log WaitingExport s) of (t, s1) \<Rightarrow>
        pollExport_loop cfg w deckId exportId (of_int t + timeout cfg * 1000) (pollExport cfg) s1)"

subsection \<open>\<^verbatim>\<open>createDeck\<close> and \<^verbatim>\<open>startExport\<close>\<close>

definition createDeck :: "world \<Rightarrow> string \<Rightarrow> string option \<Rightarrow> state \<Rightarrow> body outcome \<times> state" where
  "createDeck w prompt nm s =
     (let payload = [(''prompt'', JStr prompt)]
                      @ (case nm of None \<Rightarrow> [] | Some n \<Rightarrow> if n = [] then [] else [(''name'', JStr n)])
      in case request w ''POST'' ''/v1/decks'' (Some payload) (log CreatingDeck s) of
           (Rejected e, s1) \<Rightarrow> (Threw e, s1)
         | (Resolved res, s1) \<Rightarrow>
             if res_status res \<noteq> 200
             then (Exited 1, log (ErrorCreatingDeck (res_status res)) s1)
             else let deck = data res
                  in (Returned deck, log (DeckCreated (ident deck) (name deck) (status deck)) s1))"

definition startExport ::
  "world \<Rightarrow> string option \<Rightarrow> string \<Rightarrow> bool \<Rightarrow> state \<Rightarrow> body outcome \<times> state" where
  "startExport w deckId fmt up s =
     (case request w ''POST'' (''/v1/decks/'' @ interp deckId @ ''/export'')
             (Some [(''format'', JStr fmt), (''upscale'', JBool up)]) (log (StartingExport fmt) s) of
        (Rejected e, s1) \<Rightarrow> (Threw e, s1)
      | (Resolved res, s1) \<Rightarrow>
          if res_status res \<noteq> 200
          then (Exited 1, log (ErrorStartingExport (res_status res)) s1)
          else (Returned (data res), log (ExportStarted (export_id (data res))) s1))"

subsection \<open>\<^verbatim>\<open>download\<close>\<close>

text \<open>\<^verbatim>\<open>fs.createWriteStream(dest)\<close> creates or truncates the file; \<^verbatim>\<open>fs.unlinkSync(dest)\<close>
  removes it; a finished \<^verbatim>\<open>res.pipe(file)\<close> leaves the payload in it.\<close>

definition createWriteStream :: "string \<Rightarrow> state \<Rightarrow> state" where
  "createWriteStream dest s = s\<lparr>files := (files s)(dest \<mapsto> [])\<rparr>"

definition unlinkSync :: "string \<Rightarrow> state \<Rightarrow> state" where
  "unlinkSync dest s = s\<lparr>files := (files s)(dest := None)\<rparr>"

definition pipe :: "string \<Rightarrow> string \<Rightarrow> state \<Rightarrow> state" where
  "pipe payload dest s = s\<lparr>files := (files s)(dest \<mapsto> payload)\<rparr>"

text \<open>The test \<^verbatim>\<open>res.statusCode >= 300 && res.statusCode < 400 && res.headers.location\<close>:
  the redirect target when it holds.\<close>

definition redirect_target :: "nat \<Rightarrow> string option \<Rightarrow> string option" where
  "redirect_target code location =
     (if 300 \<le> code \<and> code < 400 \<and> truthy location then location else None)"

text \<open>
  The promise of \<^verbatim>\<open>download\<close>: \<open>Returned ()\<close> is \<^verbatim>\<open>resolve()\<close>, \<open>Threw e\<close> is
  \<^verbatim>\<open>reject(e)\<close>, and \<open>None\<close> is a promise that never settles (a redirect chain that
  never ends). The promise of the recursive call is passed through by
  \<^verbatim>\<open>.then(resolve).catch(reject)\<close>.
\<close>

partial_function (option) download ::
  "world \<Rightarrow> string \<Rightarrow> string \<Rightarrow> state \<Rightarrow> (unit outcome \<times> state) option" where
  "download w url dest s =
     (case web w url of
        Bad_url \<Rightarrow> Some (Threw (TypeError ''Invalid URL''), s)
      | Conn_error e \<Rightarrow> Some (Threw e, emit (Get url) (createWriteStream dest s))
      | Dl_response code location payload \<Rightarrow>
          let s1 = emit (Get url) (createWriteStream dest s)
          in case redirect_target code location of
               Some target \<Rightarrow> download w target dest (unlinkSync dest s1)
             | None \<Rightarrow>
                 if code \<noteq> 200 then Some (Threw (DownloadFailed code), s1)
                 else Some (Returned (), pipe payload dest s1))"

subsection \<open>\<^verbatim>\<open>main\<close>\<close>

text \<open>Sequencing of awaited calls: the next stage runs only when the previous one
  returned; an exit or a throw ends the chain, and so does a call that never returns.\<close>

definition and_then ::
  "('a outcome \<times> state) option \<Rightarrow> ('a \<Rightarrow> state \<Rightarrow> ('b outcome \<times> state) option)
     \<Rightarrow> ('b outcome \<times> state) option" where
  "and_then m f =
     (case m of
        None \<Rightarrow> None
      | Some (Returned x, s) \<Rightarrow> f x s
      | Some (Exited n, s) \<Rightarrow> Some (Exited n, s)
      | Some (Threw e, s) \<Rightarrow> Some (Threw e, s))"

text \<open>\<^verbatim>\<open>JSON.stringify\<close> of an object literal leaves out the properties that are
  \<^verbatim>\<open>undefined\<close>.\<close>

definition jfield :: "string \<Rightarrow> jval option \<Rightarrow> json" where
  "jfield k v = (case v of None \<Rightarrow> [] | Some x \<Rightarrow> [(k, x)])"

definition deck_url :: "body \<Rightarrow> string" where
  "deck_url deck = ''https://vibeslides.app/d/'' @ interp (ident deck)"

text \<open>Steps 5 and later of \<^verbatim>\<open>main\<close>: the download and the output for the caller.
  \<^verbatim>\<open>deck.id.slice(0, 8)\<close> throws a \<^verbatim>\<open>TypeError\<close> when the deck has no \<^verbatim>\<open>id\<close>; it is
  evaluated only when no \<^verbatim>\<open>--filename\<close> was given.\<close>

definition outName :: "config \<Rightarrow> body \<Rightarrow> exn + string" where
  "outName cfg deck =
     (if truthy (filename cfg) then Inr (or_else (filename cfg) [])
      else case ident deck of
             None \<Rightarrow> Inl (TypeError ''Cannot read properties of undefined (reading slice)'')
           | Some i \<Rightarrow> Inr (''deck-'' @ take 8 i))"

definition download_stage ::
  "config \<Rightarrow> world \<Rightarrow> body \<Rightarrow> body \<Rightarrow> string \<Rightarrow> state \<Rightarrow> (unit outcome \<times> state) option" where
  "download_stage cfg w deck completedDeck url s =
     (let ext = (if format cfg = ''pptx'' then ''pptx'' else ''pdf'')
      in case outName cfg deck of
           Inl e \<Rightarrow> Some (Threw e, s)
         | Inr file \<Rightarrow>
             let outPath = path_resolve w (outDir cfg) (file @ ''.'' @ ext);
                 s1 = log (Downloading ext) (emit (Mkdir (path_dirname w outPath)) s)
             in and_then (download w url outPath s1) (\<lambda>u s2.
                  case files s2 outPath of
                    None \<Rightarrow> Some (Threw (FsError ''ENOENT''), s2)
                  | Some content \<Rightarrow>
                      Some (Returned (),
                        emit (Stdout_json
                                (jfield ''id'' (map_option JStr (ident deck))
                                 @ jfield ''name'' (map_option JStr (name deck))
                                 @ jfield ''slides'' (map_option JNum (slides_count completedDeck))
                                 @ [(''format'', JStr ext), (''file'', JStr outPath),
                                    (''url'', JStr (deck_url deck))]))
                          (emit (Stdout_file outPath)
                             (log (Saved outPath (length content)) s2)))))"

definition main :: "config \<Rightarrow> world \<Rightarrow> string \<Rightarrow> state \<Rightarrow> (unit outcome \<times> state) option" where
  "main cfg w prompt s =
     (if prompt = [] then Some (Exited 1, emit Usage s)
      else
        and_then (Some (createDeck w prompt (deckName cfg) s)) (\<lambda>deck s1.
        and_then (pollDeckStatus cfg w (ident deck) s1) (\<lambda>completedDeck s2.
          if noExport cfg
          then Some (Returned (),
                 emit (Stdout_json
                         (jfield ''id'' (map_option JStr (ident deck))
                          @ jfield ''name'' (map_option JStr (name deck))
                          @ jfield ''slides'' (map_option JNum (slides_count completedDeck))
                          @ [(''url'', JStr (deck_url deck))])) s2)
          else
            and_then (Some (startExport w (ident deck) (format cfg) (upscale cfg) s2)) (\<lambda>exportJob s3.
            and_then (pollExportStatus cfg w (ident deck) (export_id exportJob) s3) (\<lambda>completedExport s4.
              if \<not> truthy (download_url completedExport)
              then Some (Exited 1, log NoDownloadUrl s4)
              else download_stage cfg w deck completedDeck
                     (or_else (download_url completedExport) []) s4)))))"

text \<open>The whole script: the check of the API key at load time, then
  \<^verbatim>\<open>main().catch((e) => { console.error(e); process.exit(1); })\<close>. A \<^verbatim>\<open>main\<close> that
  returns lets the process end with exit code 0.\<close>

definition script :: "config \<Rightarrow> world \<Rightarrow> string \<Rightarrow> state \<Rightarrow> (nat \<times> state) option" where
  "script cfg w prompt s =
     (if \<not> truthy (API_KEY cfg) then Some (1, emit Missing_key s)
      else case main cfg w prompt s of
             None \<Rightarrow> None
           | Some (Returned u, s') \<Rightarrow> Some (0, s')
           | Some (Exited n, s') \<Rightarrow> Some (n, s')
           | Some (Threw e, s') \<Rightarrow> Some (1, emit (Stderr_exn e) s'))"

text \<open>The state the script starts in, given the files already on disk.\<close>

definition init :: "(string \<rightharpoonup> string) \<Rightarrow> state" where
  "init fs = \<lparr>clock_reads = 0, requests = 0, trace = [], files = fs\<rparr>"

subsection \<open>Vocabulary of the properties\<close>

text \<open>The URLs a download passes through: \<open>redirects w url final\<close> holds when following
  the redirect responses from \<open>url\<close> leads to \<open>final\<close>.\<close>

inductive redirects :: "world \<Rightarrow> string \<Rightarrow> string \<Rightarrow> bool" for w :: world where
  here: "redirects w url url"
| hop: "web w url = Dl_response code location payload \<Longrightarrow>
        redirect_target code location = Some target \<Longrightarrow>
        redirects w target final \<Longrightarrow> redirects w url final"

code_pred redirects .

text \<open>The events of the flow before any export: log lines, sleeps, the usage lines, the
  create call \<^verbatim>\<open>POST /v1/decks\<close> and the status polls \<^verbatim>\<open>GET /v1/decks/<id>\<close> of the deck.
  Every other request, every download, every directory creation and every line on
  standard output is excluded.\<close>

definition no_export_event :: "string option \<Rightarrow> event \<Rightarrow> bool" where
  "no_export_event deckId e =
     (case e of
        Log m \<Rightarrow> True
      | Sleep d \<Rightarrow> True
      | Usage \<Rightarrow> True
      | Request m ep p \<Rightarrow>
          (m = ''POST'' \<and> ep = ''/v1/decks'') \<or> (m = ''GET'' \<and> ep = ''/v1/decks/'' @ interp deckId)
      | _ \<Rightarrow> False)"

subsection \<open>Example inputs\<close>

text \<open>A body without any of the properties, a response with status 200, the defaults of
  the command line, and a world whose clock advances by \<open>tick\<close> milliseconds between two
  readings and that reads header values as decimal numerals; a web where one URL
  redirects to a file and every other URL is missing; an API that always answers the
  same, a web without any valid URL, and the initial state with no files.\<close>

definition body0 :: body where
  "body0 = \<lparr>ident = None, name = None, status = None, slides_count = None,
            slides_complete = None, error = None, export_id = None, progress = None,
            download_url = None\<rparr>"

definition ok :: "body \<Rightarrow> response" where
  "ok b = \<lparr>res_status = 200, retry_after = None, data = b\<rparr>"

definition defaults :: config where
  "defaults = \<lparr>API_KEY = Some ''key'', noExport = False, upscale = False, deckName = None,
               format = ''pdf'', outDir = ''.'', filename = None,
               pollDeck = 5, pollExport = 1, timeout = 600\<rparr>"

definition decimal :: "string \<Rightarrow> rat" where
  "decimal h = of_nat (foldl (\<lambda>a c. 10 * a + (of_char c - 48)) 0 h)"

definition scripted :: "reply list \<Rightarrow> reply \<Rightarrow> nat \<Rightarrow> reply" where
  "scripted rs r n = (if n < length rs then rs ! n else r)"

definition test_world :: "int \<Rightarrow> (nat \<Rightarrow> reply) \<Rightarrow> (string \<Rightarrow> dl_reply) \<Rightarrow> world" where
  "test_world tick rs net =
     \<lparr>now = (\<lambda>n. tick * int n), replies = rs, web = net, Number_of = decimal,
      path_resolve = (\<lambda>dir file. dir @ ''/'' @ file), path_dirname = (\<lambda>p. ''.'')\<rparr>"

definition example_web :: "string \<Rightarrow> dl_reply" where
  "example_web u =
     (if u = ''https://cdn/x.pdf'' then Dl_response 302 (Some ''https://store/x.pdf'') []
      else if u = ''https://store/x.pdf'' then Dl_response 200 None ''%PDF-1.7''
      else Dl_response 404 None ''Not Found'')"

definition every :: "reply \<Rightarrow> nat \<Rightarrow> reply" where
  "every r n = r"

definition offline :: "string \<Rightarrow> dl_reply" where
  "offline u = Bad_url"

definition start :: state where
  "start = init Map.empty"

section \<open>Basic facts\<close>

lemmas fixtures = body0_def ok_def defaults_def decimal_def scripted_def test_world_def init_def
  every_def offline_def start_def

lemmas run_defs = pollDeckStatus_def pollDeck_loop.simps pollDeck_iter_def
  pollExportStatus_def pollExport_loop.simps pollExport_iter_def Date_now_def
  request_def log_def emit_def sleep_def default0_def interp_def truthy_def or_else_def Let_def

lemma requests_Date_now [simp]: "requests (snd (Date_now w s)) = requests s"
  by (simp add: Date_now_def)

lemma trace_Date_now [simp]: "trace (snd (Date_now w s)) = trace s"
  by (simp add: Date_now_def)

lemma clock_reads_Date_now [simp]: "clock_reads (snd (Date_now w s)) = Suc (clock_reads s)"
  by (simp add: Date_now_def)

lemma fst_Date_now [simp]: "fst (Date_now w s) = now w (clock_reads s)"
  by (simp add: Date_now_def)

lemma requests_emit [simp]: "requests (emit e s) = requests s"
  by (simp add: emit_def)

lemma trace_emit [simp]: "trace (emit e s) = trace s @ [e]"
  by (simp add: emit_def)

lemma clock_reads_emit [simp]: "clock_reads (emit e s) = clock_reads s"
  by (simp add: emit_def)

lemma request_eq:
  "request w m e p s = (replies w (requests s), emit (Request m e p) (s\<lparr>requests := Suc (requests s)\<rparr>))"
  by (simp add: request_def)



lemma pollDeck_loop_unfold:
  assumes "of_int (now w (clock_reads s)) < deadline"
  shows "pollDeck_loop cfg w deckId deadline s =
           (case pollDeck_iter cfg w deckId (snd (Date_now w s)) of
              (Stop r, s2) \<Rightarrow> Some (r, s2)
            | (Continue u, s2) \<Rightarrow> pollDeck_loop cfg w deckId deadline s2)"
  using assms by (subst pollDeck_loop.simps) (simp add: Date_now_def)


lemma pollExport_loop_unfold:
  assumes "of_int (now w (clock_reads s)) < deadline"
  shows "pollExport_loop cfg w deckId exportId deadline interval s =
           (case pollExport_iter cfg w deckId exportId interval (snd (Date_now w s)) of
              (Stop r, s2) \<Rightarrow> Some (r, s2)
            | (Continue interval', s2) \<Rightarrow> pollExport_loop cfg w deckId exportId deadline interval' s2)"
  using assms by (subst pollExport_loop.simps) (simp add: Date_now_def)


subsection \<open>Both loops stop once the clock has passed the deadline\<close>





subsection \<open>The download follows the redirect chain\<close>

lemma redirect_target_200 [simp]: "redirect_target 200 location = None"
  by (simp add: redirect_target_def)

lemma redirect_target_Some:
  "redirect_target code location = Some target
     \<longleftrightarrow> 300 \<le> code \<and> code < 400 \<and> location = Some target \<and> target \<noteq> []"
  by (auto simp add: redirect_target_def truthy_def split: option.splits)

lemma download_redirect:
  assumes "web w url = Dl_response code location payload"
    and "redirect_target code location = Some target"
  shows "download w url dest s
           = download w target dest (unlinkSync dest (emit (Get url) (createWriteStream dest s)))"
  using assms by (subst download.simps) (simp add: Let_def)

lemma download_terminal:
  assumes "web w url = Dl_response code location payload"
    and "redirect_target code location = None"
  shows "download w url dest s
           = (if code \<noteq> 200
              then Some (Threw (DownloadFailed code), emit (Get url) (createWriteStream dest s))
              else Some (Returned (), pipe payload dest (emit (Get url) (createWriteStream dest s))))"
  using assms by (subst download.simps) (simp add: Let_def)

lemma files_unlinked [simp]:
  "files (unlinkSync dest s) dest = None"
  by (simp add: unlinkSync_def)

lemma files_created [simp]:
  "files (emit e (createWriteStream dest s)) dest = Some []"
  by (simp add: emit_def createWriteStream_def)

lemma files_piped [simp]:
  "files (pipe payload dest s) dest = Some payload"
  by (simp add: pipe_def)

lemma download_resolves_only_at_200:
  assumes "download w url dest s = Some y"
  shows "fst y = Returned () \<longrightarrow>
           (\<exists>final location payload. redirects w url final
              \<and> web w final = Dl_response 200 location payload
              \<and> files (snd y) dest = Some payload)"
proof (rule download.raw_induct [where P = "\<lambda>w url dest s y. fst y = Returned () \<longrightarrow>
           (\<exists>final location payload. redirects w url final
              \<and> web w final = Dl_response 200 location payload
              \<and> files (snd y) dest = Some payload)", OF _ assms], goal_cases)
  case (1 dl w url dest s y)
  show ?case
  proof (cases "web w url")
    case Bad_url
    with 1(2) show ?thesis by auto
  next
    case (Conn_error e)
    with 1(2) show ?thesis by auto
  next
    case (Dl_response code location payload)
    show ?thesis
    proof (cases "redirect_target code location")
      case None
      show ?thesis
      proof (cases "code = 200")
        case True
        with 1(2) Dl_response None
        have "y = (Returned (), pipe payload dest (emit (Get url) (createWriteStream dest s)))"
          by (simp add: Let_def)
        then show ?thesis
          using Dl_response True redirects.here [of w url] by auto
      next
        case False
        with 1(2) Dl_response None show ?thesis by (auto simp add: Let_def)
      qed
    next
      case (Some target)
      with 1(2) Dl_response
      have "dl w target dest (unlinkSync dest (emit (Get url) (createWriteStream dest s))) = Some y"
        by (simp add: Let_def)
      from 1(1) [OF this] show ?thesis
        using redirects.hop [OF Dl_response Some] by blast
    qed
  qed
qed

lemma download_follows_chain:
  assumes "redirects w url final"
    and "web w final = Dl_response code location payload"
    and "redirect_target code location = None"
  shows "\<exists>s'. download w url dest s
                = Some (if code = 200 then Returned () else Threw (DownloadFailed code), s')
            \<and> files s' dest = Some (if code = 200 then payload else [])"
  using assms
proof (induction arbitrary: s rule: redirects.induct)
  case (here url)
  then show ?case by (simp add: download_terminal)
next
  case (hop url code' location' payload' target final)
  from hop.IH [OF hop.prems] show ?case
    by (simp add: download_redirect [OF hop.hyps(1,2)])
qed

subsection \<open>The events of the deck phase\<close>

lemma pollDeck_iter_trace:
  "\<exists>evs. trace (snd (pollDeck_iter cfg w deckId s)) = trace s @ evs
         \<and> (\<forall>e \<in> set evs. no_export_event deckId e)
         \<and> (\<forall>d. fst (pollDeck_iter cfg w deckId s) = Stop (Returned d)
               \<longrightarrow> evs \<noteq> [] \<and> last evs = Log (DeckComplete (default0 (slides_count d))))"
  by (auto simp add: pollDeck_iter_def request_eq Let_def log_def sleep_def no_export_event_def
      split: reply.splits option.splits)

lemma pollDeck_loop_trace:
  assumes "pollDeck_loop cfg w deckId deadline s = Some y"
  shows "\<exists>evs. trace (snd y) = trace s @ evs
         \<and> (\<forall>e \<in> set evs. no_export_event deckId e)
         \<and> (\<forall>d. fst y = Returned d
               \<longrightarrow> evs \<noteq> [] \<and> last evs = Log (DeckComplete (default0 (slides_count d))))"
proof (rule pollDeck_loop.raw_induct [where P = "\<lambda>cfg w deckId deadline s y.
         \<exists>evs. trace (snd y) = trace s @ evs
         \<and> (\<forall>e \<in> set evs. no_export_event deckId e)
         \<and> (\<forall>d. fst y = Returned d
               \<longrightarrow> evs \<noteq> [] \<and> last evs = Log (DeckComplete (default0 (slides_count d))))",
       OF _ assms], goal_cases)
  case (1 loop cfg w deckId deadline s y)
  show ?case
  proof (cases "of_int (now w (clock_reads s)) < deadline")
    case False
    with 1(2) have "y = (Exited 1, log TimeoutDeck (snd (Date_now w s)))"
      by (simp add: Date_now_def)
    then show ?thesis
      by (simp add: log_def no_export_event_def)
  next
    case True
    obtain st s2 where it: "pollDeck_iter cfg w deckId (snd (Date_now w s)) = (st, s2)"
      by (cases "pollDeck_iter cfg w deckId (snd (Date_now w s))")
    from pollDeck_iter_trace [of cfg w deckId "snd (Date_now w s)"] it
    obtain evs1 where e1: "trace s2 = trace s @ evs1"
      "\<forall>e \<in> set evs1. no_export_event deckId e"
      "\<forall>d. st = Stop (Returned d)
          \<longrightarrow> evs1 \<noteq> [] \<and> last evs1 = Log (DeckComplete (default0 (slides_count d)))"
      by auto
    show ?thesis
    proof (cases st)
      case (Stop r)
      with 1(2) True it have "y = (r, s2)"
        by (simp add: Date_now_def)
      with e1 Stop show ?thesis by auto
    next
      case (Continue u)
      with 1(2) True it have "loop cfg w deckId deadline s2 = Some y"
        by (simp add: Date_now_def)
      from 1(1) [OF this] obtain evs2 where e2: "trace (snd y) = trace s2 @ evs2"
        "\<forall>e \<in> set evs2. no_export_event deckId e"
        "\<forall>d. fst y = Returned d
          \<longrightarrow> evs2 \<noteq> [] \<and> last evs2 = Log (DeckComplete (default0 (slides_count d)))"
        by auto
      show ?thesis
      proof (intro exI [of _ "evs1 @ evs2"] conjI)
        show "trace (snd y) = trace s @ evs1 @ evs2" using e1(1) e2(1) by simp
        show "\<forall>e \<in> set (evs1 @ evs2). no_export_event deckId e" using e1(2) e2(2) by auto
        show "\<forall>d. fst y = Returned d
          \<longrightarrow> evs1 @ evs2 \<noteq> [] \<and> last (evs1 @ evs2) = Log (DeckComplete (default0 (slides_count d)))"
          using e2(3) by auto
      qed
    qed
  qed
qed

lemma pollDeckStatus_trace:
  assumes "pollDeckStatus cfg w deckId s = Some y"
  shows "\<exists>evs. trace (snd y) = trace s @ evs
         \<and> (\<forall>e \<in> set evs. no_export_event deckId e)
         \<and> (\<forall>d. fst y = Returned d
               \<longrightarrow> evs \<noteq> [] \<and> last evs = Log (DeckComplete (default0 (slides_count d))))"
proof -
  let ?s1 = "snd (Date_now w (log WaitingDeck s))"
  from assms have "pollDeck_loop cfg w deckId
      (of_int (now w (clock_reads s)) + timeout cfg * 1000) ?s1 = Some y"
    by (simp add: pollDeckStatus_def Date_now_def log_def emit_def)
  from pollDeck_loop_trace [OF this] obtain evs where e: "trace (snd y) = trace ?s1 @ evs"
    "\<forall>e \<in> set evs. no_export_event deckId e"
    "\<forall>d. fst y = Returned d
          \<longrightarrow> evs \<noteq> [] \<and> last evs = Log (DeckComplete (default0 (slides_count d)))"
    by auto
  show ?thesis
  proof (intro exI [of _ "Log WaitingDeck # evs"] conjI)
    show "trace (snd y) = trace s @ Log WaitingDeck # evs"
      using e(1) by (simp add: log_def)
    show "\<forall>e \<in> set (Log WaitingDeck # evs). no_export_event deckId e"
      using e(2) by (simp add: no_export_event_def)
    show "\<forall>d. fst y = Returned d \<longrightarrow> Log WaitingDeck # evs \<noteq> []
        \<and> last (Log WaitingDeck # evs) = Log (DeckComplete (default0 (slides_count d)))"
      using e(3) by auto
  qed
qed

lemma createDeck_trace:
  "\<exists>evs. trace (snd (createDeck w prompt nm s)) = trace s @ evs
         \<and> (\<forall>e \<in> set evs. no_export_event deckId e)"
  by (auto simp add: createDeck_def request_eq Let_def log_def no_export_event_def
      split: reply.splits option.splits)

lemma file_not_in_summary:
  "''file'' \<notin> fst ` set (jfield ''id'' a @ jfield ''name'' b @ jfield ''slides'' c @ [(''url'', u)])"
  by (auto simp add: jfield_def split: option.splits)

lemma main_noExport_completed:
  assumes "noExport cfg" and "prompt \<noteq> []"
    and "createDeck w prompt (deckName cfg) s = (Returned deck, s1)"
    and "pollDeckStatus cfg w (ident deck) s1 = Some (Returned completedDeck, s2)"
  shows "main cfg w prompt s =
           Some (Returned (),
             emit (Stdout_json
                     (jfield ''id'' (map_option JStr (ident deck))
                      @ jfield ''name'' (map_option JStr (name deck))
                      @ jfield ''slides'' (map_option JNum (slides_count completedDeck))
                      @ [(''url'', JStr (deck_url deck))])) s2)"
  using assms by (simp add: main_def and_then_def)

lemma main_deck_phase_abort:
  assumes "prompt \<noteq> []"
    and "createDeck w prompt (deckName cfg) s = (Returned deck, s1)"
    and "pollDeckStatus cfg w (ident deck) s1 = Some (r, s2)"
    and "\<forall>d. r \<noteq> Returned d"
  shows "\<exists>r'. main cfg w prompt s = Some (r', s2) \<and> r' \<noteq> Returned ()
            \<and> (\<forall>n. r = Exited n \<longrightarrow> r' = Exited n)
            \<and> (\<forall>e. r = Threw e \<longrightarrow> r' = Threw e)"
  using assms by (cases r) (simp_all add: main_def and_then_def)

lemma main_deck_phase_diverges:
  assumes "prompt \<noteq> []"
    and "createDeck w prompt (deckName cfg) s = (Returned deck, s1)"
    and "pollDeckStatus cfg w (ident deck) s1 = None"
  shows "main cfg w prompt s = None"
  using assms by (simp add: main_def and_then_def)

lemma main_create_abort:
  assumes "prompt \<noteq> []"
    and "createDeck w prompt (deckName cfg) s = (r, s1)"
    and "\<forall>d. r \<noteq> Returned d"
  shows "\<exists>r'. main cfg w prompt s = Some (r', s1) \<and> r' \<noteq> Returned ()"
  using assms by (cases r) (simp_all add: main_def and_then_def)

lemma main_noExport_trace:
  assumes "noExport cfg" and "main cfg w prompt s = Some (r, s')"
  shows "\<exists>deckId evs. (\<forall>e \<in> set evs. no_export_event deckId e)
           \<and> (r \<noteq> Returned () \<longrightarrow> trace s' = trace s @ evs)
           \<and> (r = Returned () \<longrightarrow>
                (\<exists>n j. evs \<noteq> [] \<and> last evs = Log (DeckComplete n)
                   \<and> trace s' = trace s @ evs @ [Stdout_json j]
                   \<and> ''file'' \<notin> fst ` set j))"
proof (cases "prompt = []")
  case True
  with assms(2) have "r = Exited 1" "s' = emit Usage s"
    by (simp_all add: main_def)
  then show ?thesis
    by (intro exI [of _ None] exI [of _ "[Usage]"]) (simp add: no_export_event_def)
next
  case False
  obtain r1 s1 where c: "createDeck w prompt (deckName cfg) s = (r1, s1)"
    by (cases "createDeck w prompt (deckName cfg) s")
  show ?thesis
  proof (cases "\<exists>deck. r1 = Returned deck")
    case no: False
    then have "\<forall>d. r1 \<noteq> Returned d" by blast
    from main_create_abort [OF False c this] assms(2)
    have "s' = s1" and "r \<noteq> Returned ()" by auto
    moreover from createDeck_trace [of w prompt "deckName cfg" s None] c
    obtain evs where "trace s1 = trace s @ evs" "\<forall>e \<in> set evs. no_export_event None e"
      by auto
    ultimately show ?thesis by blast
  next
    case True
    then obtain deck where r1: "r1 = Returned deck" by blast
    from createDeck_trace [of w prompt "deckName cfg" s "ident deck"] c
    obtain evs1 where e1: "trace s1 = trace s @ evs1"
      "\<forall>e \<in> set evs1. no_export_event (ident deck) e"
      by auto
    have "pollDeckStatus cfg w (ident deck) s1 \<noteq> None"
    proof
      assume "pollDeckStatus cfg w (ident deck) s1 = None"
      from main_deck_phase_diverges [OF False c [unfolded r1] this] assms(2)
      show False by simp
    qed
    then obtain r2 s2 where
      p: "pollDeckStatus cfg w (ident deck) s1 = Some (r2, s2)"
      by (cases "pollDeckStatus cfg w (ident deck) s1") auto
    from pollDeckStatus_trace [OF p] obtain evs2 where e2: "trace s2 = trace s1 @ evs2"
      "\<forall>e \<in> set evs2. no_export_event (ident deck) e"
      "\<forall>d. r2 = Returned d
          \<longrightarrow> evs2 \<noteq> [] \<and> last evs2 = Log (DeckComplete (default0 (slides_count d)))"
      by auto
    show ?thesis
    proof (cases "\<exists>d. r2 = Returned d")
      case True
      then obtain d where r2: "r2 = Returned d" by blast
      from main_noExport_completed [OF assms(1) False c [unfolded r1] p [unfolded r2]] assms(2)
      have "r = Returned ()" and
        "s' = emit (Stdout_json
                     (jfield ''id'' (map_option JStr (ident deck))
                      @ jfield ''name'' (map_option JStr (name deck))
                      @ jfield ''slides'' (map_option JNum (slides_count d))
                      @ [(''url'', JStr (deck_url deck))])) s2"
        by simp_all
      then show ?thesis
        using e1 e2 r2 file_not_in_summary
        by (intro exI [of _ "ident deck"] exI [of _ "evs1 @ evs2"]) auto
    next
      case False
      then have "\<forall>d. r2 \<noteq> Returned d" by blast
      from main_deck_phase_abort [OF \<open>prompt \<noteq> []\<close> c [unfolded r1] p this] assms(2)
      have "s' = s2" and "r \<noteq> Returned ()"
        by auto
      then show ?thesis
        using e1 e2
        by (intro exI [of _ "ident deck"] exI [of _ "evs1 @ evs2"]) auto
    qed
  qed
qed

lemma main_deck_exit:
  assumes "prompt \<noteq> []"
    and "createDeck w prompt (deckName cfg) s = (Returned deck, s1)"
    and "pollDeckStatus cfg w (ident deck) s1 = Some (Exited n, s2)"
  shows "main cfg w prompt s = Some (Exited n, s2)
           \<and> (\<exists>evs. trace s2 = trace s @ evs \<and> (\<forall>e \<in> set evs. no_export_event (ident deck) e))"
proof -
  from createDeck_trace [of w prompt "deckName cfg" s "ident deck"] assms(2)
  obtain evs1 where e1: "trace s1 = trace s @ evs1"
    "\<forall>e \<in> set evs1. no_export_event (ident deck) e"
    by auto
  from pollDeckStatus_trace [OF assms(3)] obtain evs2 where e2: "trace s2 = trace s1 @ evs2"
    "\<forall>e \<in> set evs2. no_export_event (ident deck) e"
    by auto
  have "trace s2 = trace s @ evs1 @ evs2" using e1(1) e2(1) by simp
  moreover have "\<forall>e \<in> set (evs1 @ evs2). no_export_event (ident deck) e"
    using e1(2) e2(2) by auto
  moreover have "main cfg w prompt s = Some (Exited n, s2)"
    using assms by (simp add: main_def and_then_def)
  ultimately show ?thesis by blast
qed

section \<open>The claims\<close>

subsection \<open>C1\<close>

text \<open>
  Claim C1. In the deck-generation poll, a response (HTTP 200) read at the head of the loop
  before the deadline is a terminal success exactly when its status is \<^verbatim>\<open>complete\<close>, its
  slide count is positive and all slides are complete; the poller then returns that deck.
  A \<^verbatim>\<open>complete\<close> response with fewer complete slides than slides, or with a slide count
  of zero, does not end the loop: the pass yields \<open>Continue\<close>, one request was made, and
  the loop goes on from the state the pass left.
\<close>

theorem deck_terminal_success:
  assumes "of_int (now w (clock_reads s)) < deadline"
    and "replies w (requests s) = Resolved res"
    and "res_status res = 200"
  shows
    "((\<exists>d. fst (pollDeck_iter cfg w deckId (snd (Date_now w s))) = Stop (Returned d))
        \<longleftrightarrow> status (data res) = Some ''complete''
            \<and> default0 (slides_count (data res)) > 0
            \<and> default0 (slides_complete (data res)) \<ge> default0 (slides_count (data res)))
     \<and> (status (data res) = Some ''complete''
            \<and> default0 (slides_count (data res)) > 0
            \<and> default0 (slides_complete (data res)) \<ge> default0 (slides_count (data res))
          \<longrightarrow> pollDeck_loop cfg w deckId deadline s
                = Some (Returned (data res), snd (pollDeck_iter cfg w deckId (snd (Date_now w s)))))
     \<and> (status (data res) = Some ''complete''
            \<and> (default0 (slides_complete (data res)) < default0 (slides_count (data res))
                \<or> default0 (slides_count (data res)) = 0)
          \<longrightarrow> fst (pollDeck_iter cfg w deckId (snd (Date_now w s))) = Continue ()
              \<and> requests (snd (pollDeck_iter cfg w deckId (snd (Date_now w s)))) = Suc (requests s)
              \<and> pollDeck_loop cfg w deckId deadline s
                = pollDeck_loop cfg w deckId deadline (snd (pollDeck_iter cfg w deckId (snd (Date_now w s)))))"
proof -
  let ?s1 = "snd (Date_now w s)"
  have r: "replies w (requests ?s1) = Resolved res" using assms(2) by simp
  show ?thesis
    using assms(3) r
    by (auto simp add: pollDeck_loop_unfold [OF assms(1)] pollDeck_iter_def request_eq Let_def
        log_def sleep_def split: option.splits)
qed

theorem deck_terminal_success_witness:
  "pollDeck_loop defaults
     (test_world 1000
        (\<lambda>n. Resolved (ok (body0\<lparr>status := Some ''complete'', slides_count := Some 3,
                                 slides_complete := Some 3\<rparr>)))
        (\<lambda>u. Bad_url))
     (Some ''d1'') 600000 (init Map.empty)
   = Some (Returned (body0\<lparr>status := Some ''complete'', slides_count := Some 3,
                            slides_complete := Some 3\<rparr>),
       \<lparr>clock_reads = 1, requests = 1,
        trace = [Request ''GET'' ''/v1/decks/d1'' None, Log (DeckComplete 3)],
        files = Map.empty\<rparr>)
   \<and> fst (pollDeck_iter defaults
            (test_world 1000
               (\<lambda>n. Resolved (ok (body0\<lparr>status := Some ''complete'', slides_count := Some 3,
                                        slides_complete := Some 1\<rparr>)))
               (\<lambda>u. Bad_url))
            (Some ''d1'')
            \<lparr>clock_reads = 1, requests = 0, trace = [], files = Map.empty\<rparr>)
     = Continue ()"
  using deck_terminal_success
    [where w = "test_world 1000
        (\<lambda>n. Resolved (ok (body0\<lparr>status := Some ''complete'', slides_count := Some 3,
                                 slides_complete := Some 3\<rparr>)))
        (\<lambda>u. Bad_url)"
      and s = "init Map.empty" and deadline = 600000 and cfg = defaults and deckId = "Some ''d1''"
      and res = "ok (body0\<lparr>status := Some ''complete'', slides_count := Some 3,
                           slides_complete := Some 3\<rparr>)"]
    deck_terminal_success
    [where w = "test_world 1000
        (\<lambda>n. Resolved (ok (body0\<lparr>status := Some ''complete'', slides_count := Some 3,
                                 slides_complete := Some 1\<rparr>)))
        (\<lambda>u. Bad_url)"
      and s = "init Map.empty" and deadline = 600000 and cfg = defaults and deckId = "Some ''d1''"
      and res = "ok (body0\<lparr>status := Some ''complete'', slides_count := Some 3,
                           slides_complete := Some 1\<rparr>)"]
  by (simp add: fixtures default0_def Date_now_def pollDeck_iter_def request_def log_def emit_def
      interp_def)

subsection \<open>C2\<close>

text \<open>
  Claim C2. In the export poll, a response (HTTP 200) is a terminal success exactly when
  its status is \<^verbatim>\<open>complete\<close> or it carries a download URL (a non-empty string, which is
  what the test \<^verbatim>\<open>exp.download_url\<close> asks for). So a response with a download URL and any
  other status ends the loop: the poller logs the completion and returns that response
  without a further request.
\<close>

theorem export_terminal_success:
  assumes "of_int (now w (clock_reads s)) < deadline"
    and "replies w (requests s) = Resolved res"
    and "res_status res = 200"
  shows
    "((\<exists>d. fst (pollExport_iter cfg w deckId exportId interval (snd (Date_now w s))) = Stop (Returned d))
        \<longleftrightarrow> status (data res) = Some ''complete'' \<or> truthy (download_url (data res)))
     \<and> (status (data res) = Some ''complete'' \<or> truthy (download_url (data res))
          \<longrightarrow> (\<exists>s'. pollExport_loop cfg w deckId exportId deadline interval s
                      = Some (Returned (data res), s')
                  \<and> trace s' = trace s
                      @ [Request ''GET'' (''/v1/decks/'' @ interp deckId @ ''/export?export_id='' @ interp exportId) None,
                         Log ExportComplete]
                  \<and> requests s' = Suc (requests s)))"
  using assms(2,3)
  by (auto simp add: pollExport_loop_unfold [OF assms(1)] pollExport_iter_def request_eq Let_def
      log_def sleep_def)

theorem export_terminal_success_witness:
  "\<exists>s'. pollExport_loop defaults
          (test_world 1000
             (\<lambda>n. Resolved (ok (body0\<lparr>status := Some ''processing'',
                                      download_url := Some ''https://cdn/x.pdf''\<rparr>)))
             (\<lambda>u. Bad_url))
          (Some ''d1'') (Some ''e1'') 600000 1 (init Map.empty)
        = Some (Returned (body0\<lparr>status := Some ''processing'',
                                 download_url := Some ''https://cdn/x.pdf''\<rparr>), s')
      \<and> trace s' = [Request ''GET'' ''/v1/decks/d1/export?export_id=e1'' None, Log ExportComplete]
      \<and> requests s' = 1"
  using export_terminal_success
    [where w = "test_world 1000
             (\<lambda>n. Resolved (ok (body0\<lparr>status := Some ''processing'',
                                      download_url := Some ''https://cdn/x.pdf''\<rparr>)))
             (\<lambda>u. Bad_url)"
      and s = "init Map.empty" and deadline = 600000 and cfg = defaults
      and deckId = "Some ''d1''" and exportId = "Some ''e1''" and interval = 1
      and res = "ok (body0\<lparr>status := Some ''processing'',
                           download_url := Some ''https://cdn/x.pdf''\<rparr>)"]
  by (simp add: fixtures truthy_def interp_def)

subsection \<open>C3\<close>

text \<open>
  Claim C3, as amended. A status other than 200 on a status-check request is transient
  in the export poll only: it is logged, the loop sleeps for the current interval, keeps
  that interval and goes on. In the deck-generation poll it is fatal: it is logged and
  the process exits with code 1.
\<close>

theorem non_200_poll_response:
  assumes "of_int (now w (clock_reads s)) < deadline"
    and "replies w (requests s) = Resolved res"
    and "res_status res \<noteq> 200"
  shows
    "(\<exists>s'. pollExport_iter cfg w deckId exportId interval (snd (Date_now w s)) = (Continue interval, s')
         \<and> trace s' = trace s
             @ [Request ''GET'' (''/v1/decks/'' @ interp deckId @ ''/export?export_id='' @ interp exportId) None,
                Log (ExportPollError (res_status res)), Sleep (interval * 1000)]
         \<and> pollExport_loop cfg w deckId exportId deadline interval s
             = pollExport_loop cfg w deckId exportId deadline interval s')
     \<and> (\<exists>s'. pollDeck_loop cfg w deckId deadline s = Some (Exited 1, s')
         \<and> trace s' = trace s
             @ [Request ''GET'' (''/v1/decks/'' @ interp deckId) None,
                Log (ErrorPollingDeck (res_status res))])"
  using assms(2,3)
  by (simp add: pollExport_loop_unfold [OF assms(1)] pollDeck_loop_unfold [OF assms(1)]
      pollExport_iter_def pollDeck_iter_def request_eq log_def sleep_def)

theorem non_200_poll_response_witness:
  "(\<exists>s'. pollExport_iter defaults
           (test_world 1000 (\<lambda>n. Resolved \<lparr>res_status = 503, retry_after = None, data = body0\<rparr>)
              (\<lambda>u. Bad_url))
           (Some ''d1'') (Some ''e1'') 1 (snd (Date_now
              (test_world 1000 (\<lambda>n. Resolved \<lparr>res_status = 503, retry_after = None, data = body0\<rparr>)
                 (\<lambda>u. Bad_url)) (init Map.empty)))
         = (Continue 1, s')
       \<and> trace s' = [Request ''GET'' ''/v1/decks/d1/export?export_id=e1'' None,
                      Log (ExportPollError 503), Sleep 1000])
   \<and> (\<exists>s'. pollDeck_loop defaults
           (test_world 1000 (\<lambda>n. Resolved \<lparr>res_status = 503, retry_after = None, data = body0\<rparr>)
              (\<lambda>u. Bad_url))
           (Some ''d1'') 600000 (init Map.empty)
         = Some (Exited 1, s')
       \<and> trace s' = [Request ''GET'' ''/v1/decks/d1'' None, Log (ErrorPollingDeck 503)])"
  using non_200_poll_response
    [where w = "test_world 1000
             (\<lambda>n. Resolved \<lparr>res_status = 503, retry_after = None, data = body0\<rparr>) (\<lambda>u. Bad_url)"
      and s = "init Map.empty" and deadline = 600000 and cfg = defaults
      and deckId = "Some ''d1''" and exportId = "Some ''e1''" and interval = 1
      and res = "\<lparr>res_status = 503, retry_after = None, data = body0\<rparr>"]
  by (auto simp add: fixtures interp_def)

text \<open>
  Claim C3 as stated fails for the deck-generation poll: a single 503 answer to the
  status check ends the process with exit code 1 after one request.
\<close>

theorem deck_non_200_is_fatal:
  "map_option fst
     (pollDeckStatus defaults
        (test_world 1000 (every (Resolved \<lparr>res_status = 503, retry_after = None, data = body0\<rparr>))
           offline)
        (Some ''d1'') start)
     = Some (Exited 1)
   \<and> map_option (trace \<circ> snd)
     (pollDeckStatus defaults
        (test_world 1000 (every (Resolved \<lparr>res_status = 503, retry_after = None, data = body0\<rparr>))
           offline)
        (Some ''d1'') start)
     = Some [Log WaitingDeck, Request ''GET'' ''/v1/decks/d1'' None, Log (ErrorPollingDeck 503)]"
  by (simp add: fixtures run_defs)

subsection \<open>C4\<close>

text \<open>
  Claim C4, as amended. A deck poll response (HTTP 200) with status \<^verbatim>\<open>error\<close> makes the
  poller exit with code 1 right after logging the deck's error message (or \<^verbatim>\<open>unknown\<close>),
  with no further request; so does an export poll response (HTTP 200) with status
  \<^verbatim>\<open>error\<close> that carries no download URL. When the deck poller exits, \<^verbatim>\<open>main\<close> ends in
  the same state with the same exit code, and no export request, download or output line
  was ever issued.
\<close>

theorem error_status_is_fatal:
  assumes "of_int (now w (clock_reads s)) < deadline"
    and "replies w (requests s) = Resolved res"
    and "res_status res = 200"
    and "status (data res) = Some ''error''"
  shows
    "(\<exists>s'. pollDeck_loop cfg w deckId deadline s = Some (Exited 1, s')
         \<and> trace s' = trace s
             @ [Request ''GET'' (''/v1/decks/'' @ interp deckId) None,
                Log (DeckGenerationFailed (or_else (error (data res)) ''unknown''))]
         \<and> requests s' = Suc (requests s))
     \<and> (\<not> truthy (download_url (data res))
          \<longrightarrow> (\<exists>s'. pollExport_loop cfg w deckId exportId deadline interval s = Some (Exited 1, s')
                 \<and> trace s' = trace s
                     @ [Request ''GET'' (''/v1/decks/'' @ interp deckId @ ''/export?export_id='' @ interp exportId) None,
                        Log (ExportFailed (or_else (error (data res)) ''unknown''))]
                 \<and> requests s' = Suc (requests s)))
     \<and> (\<forall>prompt s0 deck s1 n s2.
           prompt \<noteq> [] \<and> createDeck w prompt (deckName cfg) s0 = (Returned deck, s1)
           \<and> pollDeckStatus cfg w (ident deck) s1 = Some (Exited n, s2)
           \<longrightarrow> main cfg w prompt s0 = Some (Exited n, s2)
               \<and> (\<exists>evs. trace s2 = trace s0 @ evs
                     \<and> (\<forall>e \<in> set evs. no_export_event (ident deck) e)))"
proof (intro conjI allI impI)
  show "\<exists>s'. pollDeck_loop cfg w deckId deadline s = Some (Exited 1, s')
         \<and> trace s' = trace s
             @ [Request ''GET'' (''/v1/decks/'' @ interp deckId) None,
                Log (DeckGenerationFailed (or_else (error (data res)) ''unknown''))]
         \<and> requests s' = Suc (requests s)"
    using assms(2,3,4)
    by (simp add: pollDeck_loop_unfold [OF assms(1)] pollDeck_iter_def request_eq log_def Let_def)
next
  assume "\<not> truthy (download_url (data res))"
  then show "\<exists>s'. pollExport_loop cfg w deckId exportId deadline interval s = Some (Exited 1, s')
                 \<and> trace s' = trace s
                     @ [Request ''GET'' (''/v1/decks/'' @ interp deckId @ ''/export?export_id='' @ interp exportId) None,
                        Log (ExportFailed (or_else (error (data res)) ''unknown''))]
                 \<and> requests s' = Suc (requests s)"
    using assms(2,3,4)
    by (simp add: pollExport_loop_unfold [OF assms(1)] pollExport_iter_def request_eq log_def Let_def)
next
  fix prompt s0 deck s1 n s2
  assume "prompt \<noteq> [] \<and> createDeck w prompt (deckName cfg) s0 = (Returned deck, s1)
           \<and> pollDeckStatus cfg w (ident deck) s1 = Some (Exited n, s2)"
  then show "main cfg w prompt s0 = Some (Exited n, s2)"
    and "\<exists>evs. trace s2 = trace s0 @ evs \<and> (\<forall>e \<in> set evs. no_export_event (ident deck) e)"
    using main_deck_exit [of prompt w cfg s0 deck s1 n s2] by blast+
qed

theorem error_status_is_fatal_witness:
  "(\<exists>s'. pollDeck_loop defaults
           (test_world 1000
              (\<lambda>n. Resolved (ok (body0\<lparr>ident := Some ''d1'', status := Some ''error'',
                                       error := Some ''quota exceeded''\<rparr>)))
              (\<lambda>u. Bad_url))
           (Some ''d1'') 600000 (init Map.empty)
         = Some (Exited 1, s')
       \<and> trace s' = [Request ''GET'' ''/v1/decks/d1'' None,
                      Log (DeckGenerationFailed ''quota exceeded'')]
       \<and> requests s' = 1)
   \<and> main defaults
        (test_world 1000
           (\<lambda>n. Resolved (ok (body0\<lparr>ident := Some ''d1'', status := Some ''error'',
                                    error := Some ''quota exceeded''\<rparr>)))
           (\<lambda>u. Bad_url))
        ''Quarterly update'' (init Map.empty)
     = Some (Exited 1,
         \<lparr>clock_reads = 2, requests = 2,
          trace = [Log CreatingDeck,
                   Request ''POST'' ''/v1/decks'' (Some [(''prompt'', JStr ''Quarterly update'')]),
                   Log (DeckCreated (Some ''d1'') None (Some ''error'')),
                   Log WaitingDeck,
                   Request ''GET'' ''/v1/decks/d1'' None,
                   Log (DeckGenerationFailed ''quota exceeded'')],
          files = Map.empty\<rparr>)"
proof -
  let ?b = "body0\<lparr>ident := Some ''d1'', status := Some ''error'', error := Some ''quota exceeded''\<rparr>"
  let ?w = "test_world 1000 (\<lambda>n. Resolved (ok ?b)) (\<lambda>u. Bad_url)"
  let ?s1 = "\<lparr>clock_reads = 0, requests = 1,
              trace = [Log CreatingDeck,
                       Request ''POST'' ''/v1/decks'' (Some [(''prompt'', JStr ''Quarterly update'')]),
                       Log (DeckCreated (Some ''d1'') None (Some ''error''))],
              files = Map.empty\<rparr>"
  let ?s2 = "\<lparr>clock_reads = 2, requests = 2,
              trace = [Log CreatingDeck,
                       Request ''POST'' ''/v1/decks'' (Some [(''prompt'', JStr ''Quarterly update'')]),
                       Log (DeckCreated (Some ''d1'') None (Some ''error'')),
                       Log WaitingDeck,
                       Request ''GET'' ''/v1/decks/d1'' None,
                       Log (DeckGenerationFailed ''quota exceeded'')],
              files = Map.empty\<rparr>"
  have h1: "of_int (now ?w (clock_reads (init Map.empty))) < (600000 :: rat)"
    by (simp add: fixtures)
  have h2: "replies ?w (requests (init Map.empty)) = Resolved (ok ?b)"
    by (simp add: fixtures)
  have h3: "res_status (ok ?b) = 200"
    by (simp add: fixtures)
  have h4: "status (data (ok ?b)) = Some ''error''"
    by (simp add: fixtures)
  have c: "createDeck ?w ''Quarterly update'' (deckName defaults) (init Map.empty) = (Returned ?b, ?s1)"
    by (simp add: fixtures createDeck_def request_def log_def emit_def)
  have p: "pollDeckStatus defaults ?w (ident ?b) ?s1 = Some (Exited 1, ?s2)"
    by (simp add: fixtures run_defs)
  note t = error_status_is_fatal [OF h1 h2 h3 h4, where cfg = defaults and deckId = "Some ''d1''"]
  from t have "\<exists>s'. pollDeck_loop defaults ?w (Some ''d1'') 600000 (init Map.empty) = Some (Exited 1, s')
       \<and> trace s' = [Request ''GET'' ''/v1/decks/d1'' None,
                      Log (DeckGenerationFailed ''quota exceeded'')]
       \<and> requests s' = 1"
    by (simp add: fixtures interp_def or_else_def)
  moreover from t c p have "main defaults ?w ''Quarterly update'' (init Map.empty) = Some (Exited 1, ?s2)"
    by blast
  ultimately show ?thesis by blast
qed

text \<open>
  Claim C4 as stated fails for the export poll: a response with status \<^verbatim>\<open>error\<close> that
  carries a download URL makes the poller return it as a success.
\<close>

theorem export_error_with_url_returns:
  "map_option fst
     (pollExportStatus defaults
        (test_world 1000
           (every (Resolved (ok (body0\<lparr>status := Some ''error'',
                                        download_url := Some ''https://cdn/x.pdf''\<rparr>))))
           offline)
        (Some ''d1'') (Some ''e1'') start)
     = Some (Returned (body0\<lparr>status := Some ''error'', download_url := Some ''https://cdn/x.pdf''\<rparr>))
   \<and> map_option (trace \<circ> snd)
     (pollExportStatus defaults
        (test_world 1000
           (every (Resolved (ok (body0\<lparr>status := Some ''error'',
                                        download_url := Some ''https://cdn/x.pdf''\<rparr>))))
           offline)
        (Some ''d1'') (Some ''e1'') start)
     = Some [Log WaitingExport, Request ''GET'' ''/v1/decks/d1/export?export_id=e1'' None,
             Log ExportComplete]"
  by (simp add: fixtures run_defs)

subsection \<open>C5\<close>

text \<open>
  Claim C5. For a non-terminal export response with reported progress \<open>p\<close> (zero when
  none is reported), the next wait is the configured export interval when \<open>p < 50\<close> and
  \<open>max 0.3 (configured * 0.3)\<close> seconds when \<open>p \<ge> 50\<close>: that value is the loop's new
  interval and the pass ends by sleeping for it.
\<close>

theorem export_interval:
  assumes "replies w (requests s) = Resolved res"
    and "res_status res = 200"
    and "\<not> (status (data res) = Some ''complete'' \<or> truthy (download_url (data res)))"
    and "status (data res) \<noteq> Some ''error''"
    and "default0 (progress (data res)) = p"
  shows
    "\<exists>s'. pollExport_iter cfg w deckId exportId interval s
            = (Continue (if p < 50 then pollExport cfg else max (3 / 10) (pollExport cfg * (3 / 10))), s')
         \<and> last (trace s') =
             Sleep ((if p < 50 then pollExport cfg else max (3 / 10) (pollExport cfg * (3 / 10))) * 1000)"
  using assms
  by (auto simp add: pollExport_iter_def request_eq Let_def log_def sleep_def)

theorem export_interval_witness:
  "(\<exists>s'. pollExport_iter defaults
           (test_world 1000 (\<lambda>n. Resolved (ok (body0\<lparr>progress := Some 60\<rparr>))) (\<lambda>u. Bad_url))
           (Some ''d1'') (Some ''e1'') 1 (init Map.empty)
         = (Continue (3 / 10), s') \<and> last (trace s') = Sleep 300)
   \<and> (\<exists>s'. pollExport_iter defaults
           (test_world 1000 (\<lambda>n. Resolved (ok (body0\<lparr>progress := Some 49\<rparr>))) (\<lambda>u. Bad_url))
           (Some ''d1'') (Some ''e1'') (3 / 10) (init Map.empty)
         = (Continue 1, s') \<and> last (trace s') = Sleep 1000)"
  using export_interval
    [where w = "test_world 1000 (\<lambda>n. Resolved (ok (body0\<lparr>progress := Some 60\<rparr>))) (\<lambda>u. Bad_url)"
      and s = "init Map.empty" and cfg = defaults and p = 60
      and deckId = "Some ''d1''" and exportId = "Some ''e1''" and interval = 1
      and res = "ok (body0\<lparr>progress := Some 60\<rparr>)"]
    export_interval
    [where w = "test_world 1000 (\<lambda>n. Resolved (ok (body0\<lparr>progress := Some 49\<rparr>))) (\<lambda>u. Bad_url)"
      and s = "init Map.empty" and cfg = defaults and p = 49
      and deckId = "Some ''d1''" and exportId = "Some ''e1''" and interval = "3 / 10"
      and res = "ok (body0\<lparr>progress := Some 49\<rparr>)"]
  by (simp add: fixtures truthy_def default0_def)

subsection \<open>C6\<close>

text \<open>
  Claim C6. A download whose response is a 3xx with a (non-empty) \<^verbatim>\<open>Location\<close> header
  removes the destination file it has just created and continues as the download of the
  new location to the same destination. The download resolves only when the chain of
  redirects ends in a response with status 200, and whenever the chain ends in such a
  response it does resolve, with the payload of that response as the content of the
  destination file. When the chain ends in a response with any other status, the download
  fails with an error that carries that status code, and leaves the destination file
  empty.
\<close>

theorem download_redirects_and_status:
  "(web w url = Dl_response code location payload
      \<and> 300 \<le> code \<and> code < 400 \<and> location = Some target \<and> target \<noteq> []
      \<longrightarrow> download w url dest s
            = download w target dest (unlinkSync dest (emit (Get url) (createWriteStream dest s)))
          \<and> files (unlinkSync dest (emit (Get url) (createWriteStream dest s))) dest = None)
   \<and> (download w url dest s = Some (Returned (), s')
      \<longrightarrow> (\<exists>final location' payload'. redirects w url final
             \<and> web w final = Dl_response 200 location' payload'
             \<and> files s' dest = Some payload'))
   \<and> (redirects w url final \<and> web w final = Dl_response 200 location payload
      \<longrightarrow> (\<exists>s''. download w url dest s = Some (Returned (), s'')
             \<and> files s'' dest = Some payload))
   \<and> (redirects w url final \<and> web w final = Dl_response code location payload
        \<and> redirect_target code location = None \<and> code \<noteq> 200
      \<longrightarrow> (\<exists>s''. download w url dest s = Some (Threw (DownloadFailed code), s'')
             \<and> files s'' dest = Some []))"
proof (intro conjI impI)
  assume a: "web w url = Dl_response code location payload
      \<and> 300 \<le> code \<and> code < 400 \<and> location = Some target \<and> target \<noteq> []"
  then have "redirect_target code location = Some target"
    by (simp add: redirect_target_Some)
  with a show "download w url dest s
            = download w target dest (unlinkSync dest (emit (Get url) (createWriteStream dest s)))"
    by (simp add: download_redirect)
next
  show "files (unlinkSync dest (emit (Get url) (createWriteStream dest s))) dest = None"
    by simp
next
  assume "download w url dest s = Some (Returned (), s')"
  from download_resolves_only_at_200 [OF this]
  show "\<exists>final location' payload'. redirects w url final
             \<and> web w final = Dl_response 200 location' payload'
             \<and> files s' dest = Some payload'"
    by simp
next
  assume a: "redirects w url final \<and> web w final = Dl_response 200 location payload"
  then show "\<exists>s''. download w url dest s = Some (Returned (), s'')
             \<and> files s'' dest = Some payload"
    using download_follows_chain [of w url final 200 location payload dest s] by auto
next
  assume a: "redirects w url final \<and> web w final = Dl_response code location payload
        \<and> redirect_target code location = None \<and> code \<noteq> 200"
  then show "\<exists>s''. download w url dest s = Some (Threw (DownloadFailed code), s'')
             \<and> files s'' dest = Some []"
    using download_follows_chain [of w url final code location payload dest s] by auto
qed

theorem download_redirects_and_status_witness:
  "download (test_world 1000 (\<lambda>n. Rejected (NetworkError ''unused'')) example_web)
       ''https://cdn/x.pdf'' ''out.pdf'' (init Map.empty)
     = download (test_world 1000 (\<lambda>n. Rejected (NetworkError ''unused'')) example_web)
         ''https://store/x.pdf'' ''out.pdf''
         (unlinkSync ''out.pdf'' (emit (Get ''https://cdn/x.pdf'')
            (createWriteStream ''out.pdf'' (init Map.empty))))
   \<and> (\<exists>s''. download (test_world 1000 (\<lambda>n. Rejected (NetworkError ''unused'')) example_web)
           ''https://cdn/x.pdf'' ''out.pdf'' (init Map.empty)
         = Some (Returned (), s'')
       \<and> files s'' ''out.pdf'' = Some ''%PDF-1.7'')
   \<and> (\<exists>final location.
         redirects (test_world 1000 (\<lambda>n. Rejected (NetworkError ''unused'')) example_web)
           ''https://cdn/x.pdf'' final
         \<and> web (test_world 1000 (\<lambda>n. Rejected (NetworkError ''unused'')) example_web) final
             = Dl_response 200 location ''%PDF-1.7'')
   \<and> (\<exists>s''. download (test_world 1000 (\<lambda>n. Rejected (NetworkError ''unused'')) example_web)
           ''https://gone/y.pdf'' ''out.pdf'' (init Map.empty)
         = Some (Threw (DownloadFailed 404), s'')
       \<and> files s'' ''out.pdf'' = Some [])"
proof -
  let ?w = "test_world 1000 (\<lambda>n. Rejected (NetworkError ''unused'')) example_web"
  let ?s' = "\<lparr>clock_reads = 0, requests = 0,
              trace = [Get ''https://cdn/x.pdf'', Get ''https://store/x.pdf''],
              files = [''out.pdf'' \<mapsto> ''%PDF-1.7'']\<rparr>"
  have cdn: "web ?w ''https://cdn/x.pdf'' = Dl_response 302 (Some ''https://store/x.pdf'') []"
    by (simp add: test_world_def example_web_def)
  have store: "web ?w ''https://store/x.pdf'' = Dl_response 200 None ''%PDF-1.7''"
    by (simp add: test_world_def example_web_def)
  have gone: "web ?w ''https://gone/y.pdf'' = Dl_response 404 None ''Not Found''"
    by (simp add: test_world_def example_web_def)
  have tgt: "redirect_target 302 (Some ''https://store/x.pdf'') = Some ''https://store/x.pdf''"
    by (simp add: redirect_target_def truthy_def)
  have none: "redirect_target 404 None = None"
    by (simp add: redirect_target_def truthy_def)
  have chain: "redirects ?w ''https://cdn/x.pdf'' ''https://store/x.pdf''"
    by (rule redirects.hop [OF cdn tgt redirects.here])
  have here: "redirects ?w ''https://gone/y.pdf'' ''https://gone/y.pdf''"
    by (rule redirects.here)
  have run: "download ?w ''https://cdn/x.pdf'' ''out.pdf'' (init Map.empty) = Some (Returned (), ?s')"
    by (simp add: download.simps fixtures example_web_def redirect_target_def truthy_def
        createWriteStream_def unlinkSync_def pipe_def emit_def Let_def)
  note t1 = download_redirects_and_status
    [where w = ?w and url = "''https://cdn/x.pdf''" and code = 302
      and location = "Some ''https://store/x.pdf''" and payload = "[]"
      and target = "''https://store/x.pdf''" and dest = "''out.pdf''" and s = "init Map.empty"
      and s' = ?s']
  note t2 = download_redirects_and_status
    [where w = ?w and url = "''https://cdn/x.pdf''" and final = "''https://store/x.pdf''"
      and location = None and payload = "''%PDF-1.7''"
      and dest = "''out.pdf''" and s = "init Map.empty"]
  note t3 = download_redirects_and_status
    [where w = ?w and url = "''https://gone/y.pdf''" and final = "''https://gone/y.pdf''"
      and code = 404 and location = None and payload = "''Not Found''"
      and dest = "''out.pdf''" and s = "init Map.empty"]
  have a: "download ?w ''https://cdn/x.pdf'' ''out.pdf'' (init Map.empty)
     = download ?w ''https://store/x.pdf'' ''out.pdf''
         (unlinkSync ''out.pdf'' (emit (Get ''https://cdn/x.pdf'')
            (createWriteStream ''out.pdf'' (init Map.empty))))"
    using t1 cdn by simp
  have b: "\<exists>s''. download ?w ''https://cdn/x.pdf'' ''out.pdf'' (init Map.empty) = Some (Returned (), s'')
       \<and> files s'' ''out.pdf'' = Some ''%PDF-1.7''"
    using t2 chain store by blast
  have c: "\<exists>final location. redirects ?w ''https://cdn/x.pdf'' final
         \<and> web ?w final = Dl_response 200 location ''%PDF-1.7''"
    using t1 run by auto
  have d: "\<exists>s''. download ?w ''https://gone/y.pdf'' ''out.pdf'' (init Map.empty)
         = Some (Threw (DownloadFailed 404), s'') \<and> files s'' ''out.pdf'' = Some []"
    using t3 here gone none by simp
  from a b c d show ?thesis by blast
qed

subsection \<open>C7\<close>



subsection \<open>C8\<close>

text \<open>
  Claim C8. In the deck-generation poll, a non-terminal response makes the loop go on
  after a sleep: of the number of seconds in the \<^verbatim>\<open>retry-after\<close> header when the response
  has one (a non-empty value), and of the configured deck poll interval otherwise.
\<close>

theorem deck_wait:
  assumes "replies w (requests s) = Resolved res"
    and "res_status res = 200"
    and "status (data res) \<noteq> Some ''error''"
    and "\<not> (status (data res) = Some ''complete''
            \<and> default0 (slides_count (data res)) > 0
            \<and> default0 (slides_complete (data res)) \<ge> default0 (slides_count (data res)))"
  shows
    "\<exists>s'. pollDeck_iter cfg w deckId s = (Continue (), s')
         \<and> (\<forall>h. retry_after res = Some h \<and> h \<noteq> [] \<longrightarrow> last (trace s') = Sleep (Number_of w h * 1000))
         \<and> (\<not> truthy (retry_after res) \<longrightarrow> last (trace s') = Sleep (pollDeck cfg * 1000))"
  using assms
  by (auto simp add: pollDeck_iter_def request_eq Let_def log_def sleep_def truthy_def
      split: option.splits)

theorem deck_wait_witness:
  "(\<exists>s'. pollDeck_iter defaults
           (test_world 1000
              (\<lambda>n. Resolved \<lparr>res_status = 200, retry_after = Some ''12'',
                               data = body0\<lparr>status := Some ''generating''\<rparr>\<rparr>)
              (\<lambda>u. Bad_url))
           (Some ''d1'') (init Map.empty)
         = (Continue (), s') \<and> last (trace s') = Sleep 12000)
   \<and> (\<exists>s'. pollDeck_iter defaults
           (test_world 1000 (\<lambda>n. Resolved (ok (body0\<lparr>status := Some ''generating''\<rparr>)))
              (\<lambda>u. Bad_url))
           (Some ''d1'') (init Map.empty)
         = (Continue (), s') \<and> last (trace s') = Sleep 5000)"
  using deck_wait
    [where w = "test_world 1000
              (\<lambda>n. Resolved \<lparr>res_status = 200, retry_after = Some ''12'',
                               data = body0\<lparr>status := Some ''generating''\<rparr>\<rparr>)
              (\<lambda>u. Bad_url)"
      and s = "init Map.empty" and cfg = defaults and deckId = "Some ''d1''"
      and res = "\<lparr>res_status = 200, retry_after = Some ''12'',
                  data = body0\<lparr>status := Some ''generating''\<rparr>\<rparr>"]
    deck_wait
    [where w = "test_world 1000 (\<lambda>n. Resolved (ok (body0\<lparr>status := Some ''generating''\<rparr>)))
              (\<lambda>u. Bad_url)"
      and s = "init Map.empty" and cfg = defaults and deckId = "Some ''d1''"
      and res = "ok (body0\<lparr>status := Some ''generating''\<rparr>)"]
  by (simp add: fixtures truthy_def default0_def)

subsection \<open>C9\<close>

text \<open>
  Claim C9. With \<^verbatim>\<open>--no-export\<close>, once the deck poll has returned the completed deck,
  \<^verbatim>\<open>main\<close> returns after writing one JSON record that has no \<^verbatim>\<open>file\<close> field: the
  record of the deck's \<^verbatim>\<open>id\<close> and \<^verbatim>\<open>name\<close>, the slide count and the deck's URL. Whatever
  way such a run ends, its events before that record are only log lines, sleeps, the
  create call and status polls of the deck: no export request, no download, no
  \<^verbatim>\<open>FILE:\<close> line; and the JSON record is written only after the line that reports the
  completed deck.
\<close>

theorem no_export_stops_after_deck:
  assumes "noExport cfg"
  shows "(\<forall>deck s1 completedDeck s2.
            prompt \<noteq> [] \<and> createDeck w prompt (deckName cfg) s = (Returned deck, s1)
            \<and> pollDeckStatus cfg w (ident deck) s1 = Some (Returned completedDeck, s2)
            \<longrightarrow> (\<exists>j. main cfg w prompt s = Some (Returned (), emit (Stdout_json j) s2)
                   \<and> ''file'' \<notin> fst ` set j
                   \<and> j = jfield ''id'' (map_option JStr (ident deck))
                         @ jfield ''name'' (map_option JStr (name deck))
                         @ jfield ''slides'' (map_option JNum (slides_count completedDeck))
                         @ [(''url'', JStr (deck_url deck))]))
         \<and> (\<forall>r s'. main cfg w prompt s = Some (r, s')
            \<longrightarrow> (\<exists>deckId evs. (\<forall>e \<in> set evs. no_export_event deckId e)
                   \<and> (r \<noteq> Returned () \<longrightarrow> trace s' = trace s @ evs)
                   \<and> (r = Returned () \<longrightarrow>
                        (\<exists>n j. evs \<noteq> [] \<and> last evs = Log (DeckComplete n)
                           \<and> trace s' = trace s @ evs @ [Stdout_json j]
                           \<and> ''file'' \<notin> fst ` set j))))"
proof (intro conjI allI impI)
  fix deck s1 completedDeck s2
  assume a: "prompt \<noteq> [] \<and> createDeck w prompt (deckName cfg) s = (Returned deck, s1)
            \<and> pollDeckStatus cfg w (ident deck) s1 = Some (Returned completedDeck, s2)"
  then have "main cfg w prompt s =
           Some (Returned (),
             emit (Stdout_json
                     (jfield ''id'' (map_option JStr (ident deck))
                      @ jfield ''name'' (map_option JStr (name deck))
                      @ jfield ''slides'' (map_option JNum (slides_count completedDeck))
                      @ [(''url'', JStr (deck_url deck))])) s2)"
    using main_noExport_completed [OF assms] by blast
  then show "\<exists>j. main cfg w prompt s = Some (Returned (), emit (Stdout_json j) s2)
                   \<and> ''file'' \<notin> fst ` set j
                   \<and> j = jfield ''id'' (map_option JStr (ident deck))
                         @ jfield ''name'' (map_option JStr (name deck))
                         @ jfield ''slides'' (map_option JNum (slides_count completedDeck))
                         @ [(''url'', JStr (deck_url deck))]"
    using file_not_in_summary by blast
next
  fix r s'
  assume "main cfg w prompt s = Some (r, s')"
  then show "\<exists>deckId evs. (\<forall>e \<in> set evs. no_export_event deckId e)
                   \<and> (r \<noteq> Returned () \<longrightarrow> trace s' = trace s @ evs)
                   \<and> (r = Returned () \<longrightarrow>
                        (\<exists>n j. evs \<noteq> [] \<and> last evs = Log (DeckComplete n)
                           \<and> trace s' = trace s @ evs @ [Stdout_json j]
                           \<and> ''file'' \<notin> fst ` set j))"
    by (rule main_noExport_trace [OF assms])
qed

theorem no_export_stops_after_deck_witness:
  "\<exists>j. main (defaults\<lparr>noExport := True\<rparr>)
          (test_world 1000
             (scripted [Resolved (ok (body0\<lparr>ident := Some ''d1'', name := Some ''Quarterly'',
                                             status := Some ''pending''\<rparr>))]
                (Resolved (ok (body0\<lparr>status := Some ''complete'', slides_count := Some 5,
                                       slides_complete := Some 5\<rparr>))))
             (\<lambda>u. Bad_url))
          ''Quarterly update'' (init Map.empty)
        = Some (Returned (),
            emit (Stdout_json j)
              \<lparr>clock_reads = 2, requests = 2,
               trace = [Log CreatingDeck,
                        Request ''POST'' ''/v1/decks'' (Some [(''prompt'', JStr ''Quarterly update'')]),
                        Log (DeckCreated (Some ''d1'') (Some ''Quarterly'') (Some ''pending'')),
                        Log WaitingDeck,
                        Request ''GET'' ''/v1/decks/d1'' None,
                        Log (DeckComplete 5)],
               files = Map.empty\<rparr>)
      \<and> ''file'' \<notin> fst ` set j
      \<and> j = [(''id'', JStr ''d1''), (''name'', JStr ''Quarterly''), (''slides'', JNum 5),
               (''url'', JStr ''https://vibeslides.app/d/d1'')]"
proof -
  let ?cfg = "defaults\<lparr>noExport := True\<rparr>"
  let ?d = "body0\<lparr>ident := Some ''d1'', name := Some ''Quarterly'', status := Some ''pending''\<rparr>"
  let ?c = "body0\<lparr>status := Some ''complete'', slides_count := Some 5, slides_complete := Some 5\<rparr>"
  let ?w = "test_world 1000 (scripted [Resolved (ok ?d)] (Resolved (ok ?c))) (\<lambda>u. Bad_url)"
  let ?s1 = "\<lparr>clock_reads = 0, requests = 1,
              trace = [Log CreatingDeck,
                       Request ''POST'' ''/v1/decks'' (Some [(''prompt'', JStr ''Quarterly update'')]),
                       Log (DeckCreated (Some ''d1'') (Some ''Quarterly'') (Some ''pending''))],
              files = Map.empty\<rparr>"
  let ?s2 = "\<lparr>clock_reads = 2, requests = 2,
              trace = [Log CreatingDeck,
                       Request ''POST'' ''/v1/decks'' (Some [(''prompt'', JStr ''Quarterly update'')]),
                       Log (DeckCreated (Some ''d1'') (Some ''Quarterly'') (Some ''pending'')),
                       Log WaitingDeck,
                       Request ''GET'' ''/v1/decks/d1'' None,
                       Log (DeckComplete 5)],
              files = Map.empty\<rparr>"
  have n: "noExport ?cfg" by simp
  have q: "''Quarterly update'' \<noteq> []" by simp
  have c: "createDeck ?w ''Quarterly update'' (deckName ?cfg) (init Map.empty) = (Returned ?d, ?s1)"
    by (simp add: fixtures createDeck_def request_def log_def emit_def)
  have p: "pollDeckStatus ?cfg ?w (ident ?d) ?s1 = Some (Returned ?c, ?s2)"
    by (simp add: fixtures run_defs)
  have j: "jfield ''id'' (map_option JStr (ident ?d)) @ jfield ''name'' (map_option JStr (name ?d))
             @ jfield ''slides'' (map_option JNum (slides_count ?c)) @ [(''url'', JStr (deck_url ?d))]
           = [(''id'', JStr ''d1''), (''name'', JStr ''Quarterly''), (''slides'', JNum 5),
              (''url'', JStr ''https://vibeslides.app/d/d1'')]"
    by (simp add: jfield_def deck_url_def interp_def body0_def)
  from no_export_stops_after_deck [OF n, of "''Quarterly update''" ?w "init Map.empty"] q c p
  have "\<exists>j. main ?cfg ?w ''Quarterly update'' (init Map.empty)
              = Some (Returned (), emit (Stdout_json j) ?s2)
            \<and> ''file'' \<notin> fst ` set j
            \<and> j = jfield ''id'' (map_option JStr (ident ?d)) @ jfield ''name'' (map_option JStr (name ?d))
                  @ jfield ''slides'' (map_option JNum (slides_count ?c))
                  @ [(''url'', JStr (deck_url ?d))]"
    by blast
  then show ?thesis unfolding j by blast
qed

subsection \<open>C10\<close>

text \<open>
  Claim C10. The export poll tests success before error. A response (HTTP 200) with status
  \<^verbatim>\<open>error\<close> and a non-empty download URL makes the poller return that response with the
  completion log line. A pass of the loop ends in a process exit exactly when the status
  is \<^verbatim>\<open>error\<close> and there is no download URL; the poller then exits with code 1 after the
  failure log line.
\<close>

theorem export_success_before_error:
  assumes "of_int (now w (clock_reads s)) < deadline"
    and "replies w (requests s) = Resolved res"
    and "res_status res = 200"
  shows
    "(status (data res) = Some ''error'' \<and> truthy (download_url (data res))
        \<longrightarrow> (\<exists>s'. pollExport_loop cfg w deckId exportId deadline interval s
                     = Some (Returned (data res), s')
                 \<and> last (trace s') = Log ExportComplete))
     \<and> ((\<exists>n. fst (pollExport_iter cfg w deckId exportId interval (snd (Date_now w s))) = Stop (Exited n))
          \<longleftrightarrow> status (data res) = Some ''error'' \<and> \<not> truthy (download_url (data res)))
     \<and> (status (data res) = Some ''error'' \<and> \<not> truthy (download_url (data res))
          \<longrightarrow> (\<exists>s'. pollExport_loop cfg w deckId exportId deadline interval s = Some (Exited 1, s')
                 \<and> last (trace s') = Log (ExportFailed (or_else (error (data res)) ''unknown''))))"
  using assms(2,3)
  by (auto simp add: pollExport_loop_unfold [OF assms(1)] pollExport_iter_def request_eq Let_def
      log_def sleep_def)

theorem export_success_before_error_witness:
  "(\<exists>s'. pollExport_loop defaults
           (test_world 1000
              (\<lambda>n. Resolved (ok (body0\<lparr>status := Some ''error'',
                                       download_url := Some ''https://cdn/x.pdf''\<rparr>)))
              (\<lambda>u. Bad_url))
           (Some ''d1'') (Some ''e1'') 600000 1 (init Map.empty)
         = Some (Returned (body0\<lparr>status := Some ''error'',
                                  download_url := Some ''https://cdn/x.pdf''\<rparr>), s')
       \<and> last (trace s') = Log ExportComplete)
   \<and> (\<exists>s'. pollExport_loop defaults
           (test_world 1000
              (\<lambda>n. Resolved (ok (body0\<lparr>status := Some ''error'', error := Some ''render failed''\<rparr>)))
              (\<lambda>u. Bad_url))
           (Some ''d1'') (Some ''e1'') 600000 1 (init Map.empty)
         = Some (Exited 1, s')
       \<and> last (trace s') = Log (ExportFailed ''render failed''))"
  using export_success_before_error
    [where w = "test_world 1000
              (\<lambda>n. Resolved (ok (body0\<lparr>status := Some ''error'',
                                       download_url := Some ''https://cdn/x.pdf''\<rparr>)))
              (\<lambda>u. Bad_url)"
      and s = "init Map.empty" and deadline = 600000 and cfg = defaults
      and deckId = "Some ''d1''" and exportId = "Some ''e1''" and interval = 1
      and res = "ok (body0\<lparr>status := Some ''error'',
                           download_url := Some ''https://cdn/x.pdf''\<rparr>)"]
    export_success_before_error
    [where w = "test_world 1000
              (\<lambda>n. Resolved (ok (body0\<lparr>status := Some ''error'', error := Some ''render failed''\<rparr>)))
              (\<lambda>u. Bad_url)"
      and s = "init Map.empty" and deadline = 600000 and cfg = defaults
      and deckId = "Some ''d1''" and exportId = "Some ''e1''" and interval = 1
      and res = "ok (body0\<lparr>status := Some ''error'', error := Some ''render failed''\<rparr>)"]
  by (simp add: fixtures truthy_def or_else_def)

end
